theory Spec2Isabelle
  imports Main "HOL-Library.Word"
begin

section \<open>The abstract input seat of clutter-seat.c\<close>

text \<open>
  A shallow embedding of \<^verbatim>\<open>src/clutter/clutter/clutter-seat.c\<close>. A seat handle is a C
  pointer: \<open>None\<close> is the null pointer, \<open>Some seat\<close> a live seat object. Every call
  that leaves the file (a signal emission, a call into the pointer accessibility
  subsystem, a backend virtual function, a GLib log message) is written to a trace of
  \<open>effect\<close>s in the order the C code makes it. Signal handlers and backend functions are
  outside the file: the model records that they are called, not what they do.
\<close>

subsection \<open>Types declared in headers that the file includes\<close>

text \<open>
  Modelled from the spec: the device-mode and device-type discriminants of an input device.
  The file only tests for \<^verbatim>\<open>CLUTTER_INPUT_MODE_LOGICAL\<close> and \<^verbatim>\<open>CLUTTER_TOUCHSCREEN_DEVICE\<close>;
  every other enumerator is kept as a number.
\<close>

datatype ClutterInputMode = CLUTTER_INPUT_MODE_LOGICAL | CLUTTER_INPUT_MODE_OTHER nat

datatype ClutterInputDeviceType = CLUTTER_TOUCHSCREEN_DEVICE | CLUTTER_OTHER_DEVICE nat

record ClutterInputDevice =
  device_id :: nat
  device_mode :: ClutterInputMode
  device_type :: ClutterInputDeviceType

text \<open>
  Modelled from the spec: an event carries a type tag that tells ADDED and REMOVED from
  every other kind, and the source device \<^verbatim>\<open>clutter_event_get_source_device\<close> reads from it
  (absent when the event has none).
\<close>

datatype ClutterEventType = CLUTTER_DEVICE_ADDED | CLUTTER_DEVICE_REMOVED | CLUTTER_OTHER_EVENT nat

record ClutterEvent =
  event_type :: ClutterEventType
  source_device :: "ClutterInputDevice option"

text \<open>
  Modelled from the spec: the pointer accessibility settings, a plain struct of int-sized
  fields (\<open>controls\<close> bitmask, \<open>dwell_click_type\<close> enum, and the other parameters), so that
  \<^verbatim>\<open>memcmp\<close> over it is equality of all fields.
\<close>

record ClutterPointerA11ySettings =
  controls :: "32 word"
  dwell_click_type :: "32 word"
  other_parameters :: "32 word list"

text \<open>Modelled from the spec: the grab scope; only \<^verbatim>\<open>CLUTTER_GRAB_STATE_ALL\<close> is named by the file.\<close>

datatype ClutterGrabState = CLUTTER_GRAB_STATE_ALL | CLUTTER_GRAB_STATE_PARTIAL nat

subsection \<open>Signals, effects and faults\<close>

datatype seat_signal =
    DEVICE_ADDED
  | DEVICE_REMOVED
  | KBD_A11Y_MASK_CHANGED
  | KBD_A11Y_FLAGS_CHANGED
  | PTR_A11Y_DWELL_CLICK_TYPE_CHANGED
  | PTR_A11Y_TIMEOUT_STARTED
  | PTR_A11Y_TIMEOUT_STOPPED
  | IS_UNFOCUS_INHIBITED_CHANGED

datatype effect =
    G_signal_emit seat_signal "ClutterInputDevice list"
  | Pointer_a11y_add_device "ClutterInputDevice option"
  | Pointer_a11y_remove_device "ClutterInputDevice option"
  | G_object_run_dispose ClutterInputDevice
  | Class_handle_event_post ClutterEvent
  | Class_bell_notify
  | Class_grab "32 word"
  | Class_ungrab "32 word"
  | G_warning
  | G_critical

text \<open>
  \<open>G_critical\<close> is the message \<^verbatim>\<open>g_return_if_fail\<close> logs when its check fails.
  \<open>Null_dereference\<close> is \<^verbatim>\<open>CLUTTER_SEAT_GET_CLASS\<close> reading the class pointer through a null
  seat; \<open>Assertion_failed\<close> is \<^verbatim>\<open>g_assert_true\<close> aborting.
\<close>

datatype fault = Null_dereference | Assertion_failed

subsection \<open>The class structure and the instance\<close>

text \<open>
  The virtual functions the file calls. \<open>'b\<close> is the backend's instance data. An optional
  virtual function is a function pointer that may be null.
\<close>

record 'b ClutterSeatClass =
  get_property :: "'b \<Rightarrow> nat \<Rightarrow> bool option \<times> effect list"
  get_pointer :: "'b \<Rightarrow> ClutterInputDevice option"
  get_keyboard :: "'b \<Rightarrow> ClutterInputDevice option"
  peek_devices :: "'b \<Rightarrow> ClutterInputDevice list"
  get_keymap :: "'b \<Rightarrow> nat"
  get_supported_virtual_device_types :: "'b \<Rightarrow> 32 word"
  handle_event_post :: "('b \<Rightarrow> ClutterEvent \<Rightarrow> bool) option"
  grab :: "('b \<Rightarrow> 32 word \<Rightarrow> ClutterGrabState) option"
  ungrab :: "('b \<Rightarrow> 32 word \<Rightarrow> unit) option"

record 'b ClutterSeat =
  g_class :: "'b ClutterSeatClass"
  instance_data :: 'b
  inhibit_unfocus_count :: "32 word"
  pointer_a11y_settings :: ClutterPointerA11ySettings

subsection \<open>Properties\<close>

definition PROP_TOUCH_MODE :: nat where
  "PROP_TOUCH_MODE = 1"

definition CLUTTER_VIRTUAL_DEVICE_TYPE_NONE :: "32 word" where
  "CLUTTER_VIRTUAL_DEVICE_TYPE_NONE = 0"

definition clutter_seat_get_property :: "'b \<Rightarrow> nat \<Rightarrow> bool option \<times> effect list" where
  "clutter_seat_get_property object prop_id =
     (if prop_id = PROP_TOUCH_MODE then (Some False, []) else (None, [G_warning]))"

definition clutter_seat_class_init :: "'b ClutterSeatClass \<Rightarrow> 'b ClutterSeatClass" where
  "clutter_seat_class_init klass = klass\<lparr>get_property := clutter_seat_get_property\<rparr>"

text \<open>
  GObject's \<^verbatim>\<open>g_object_get\<close> of a boolean property: the class's \<open>get_property\<close> fills a
  value that starts as FALSE.
\<close>

definition g_object_get_boolean :: "'b ClutterSeat \<Rightarrow> nat \<Rightarrow> bool \<times> effect list" where
  "g_object_get_boolean object prop_id =
     (case get_property (g_class object) (instance_data object) prop_id of
        (None, out) \<Rightarrow> (False, out)
      | (Some v, out) \<Rightarrow> (v, out))"

subsection \<open>Device accessors\<close>

definition clutter_seat_get_pointer ::
  "'b ClutterSeat option \<Rightarrow> ClutterInputDevice option \<times> effect list" where
  "clutter_seat_get_pointer seat =
     (case seat of
        None \<Rightarrow> (None, [G_critical])
      | Some s \<Rightarrow> (get_pointer (g_class s) (instance_data s), []))"

definition clutter_seat_get_keyboard ::
  "'b ClutterSeat option \<Rightarrow> ClutterInputDevice option \<times> effect list" where
  "clutter_seat_get_keyboard seat =
     (case seat of
        None \<Rightarrow> (None, [G_critical])
      | Some s \<Rightarrow> (get_keyboard (g_class s) (instance_data s), []))"

definition clutter_seat_peek_devices ::
  "'b ClutterSeat option \<Rightarrow> ClutterInputDevice list \<times> effect list" where
  "clutter_seat_peek_devices seat =
     (case seat of
        None \<Rightarrow> ([], [G_critical])
      | Some s \<Rightarrow> (peek_devices (g_class s) (instance_data s), []))"

definition clutter_seat_list_devices ::
  "'b ClutterSeat option \<Rightarrow> ClutterInputDevice list \<times> effect list" where
  "clutter_seat_list_devices seat =
     (case seat of
        None \<Rightarrow> ([], [G_critical])
      | Some s \<Rightarrow> clutter_seat_peek_devices seat)"

definition clutter_seat_bell_notify :: "'b ClutterSeat option \<Rightarrow> fault + effect list" where
  "clutter_seat_bell_notify seat =
     (case seat of
        None \<Rightarrow> Inl Null_dereference
      | Some s \<Rightarrow> Inr [Class_bell_notify])"

definition clutter_seat_get_keymap :: "'b ClutterSeat option \<Rightarrow> fault + nat" where
  "clutter_seat_get_keymap seat =
     (case seat of
        None \<Rightarrow> Inl Null_dereference
      | Some s \<Rightarrow> Inr (get_keymap (g_class s) (instance_data s)))"

definition clutter_seat_get_supported_virtual_device_types ::
  "'b ClutterSeat option \<Rightarrow> 32 word \<times> effect list" where
  "clutter_seat_get_supported_virtual_device_types seat =
     (case seat of
        None \<Rightarrow> (CLUTTER_VIRTUAL_DEVICE_TYPE_NONE, [G_critical])
      | Some s \<Rightarrow> (get_supported_virtual_device_types (g_class s) (instance_data s), []))"

subsection \<open>Pointer accessibility settings\<close>

text \<open>
  \<open>is_enabled\<close> stands for \<^verbatim>\<open>_clutter_is_input_pointer_a11y_enabled\<close>, a function of the
  accessibility subsystem.
\<close>

definition clutter_seat_ensure_a11y_state ::
  "(ClutterInputDevice \<Rightarrow> bool) \<Rightarrow> 'b ClutterSeat option \<Rightarrow> effect list" where
  "clutter_seat_ensure_a11y_state is_enabled seat =
     (case clutter_seat_get_pointer seat of
        (None, out) \<Rightarrow> out
      | (Some core_pointer, out) \<Rightarrow>
          (if is_enabled core_pointer
           then out @ [Pointer_a11y_add_device (Some core_pointer)] else out))"

definition are_pointer_a11y_settings_equal ::
  "ClutterPointerA11ySettings \<Rightarrow> ClutterPointerA11ySettings \<Rightarrow> bool" where
  "are_pointer_a11y_settings_equal a b = (a = b)"

definition clutter_seat_enable_pointer_a11y :: "'b ClutterSeat option \<Rightarrow> effect list" where
  "clutter_seat_enable_pointer_a11y seat =
     (case clutter_seat_get_pointer seat of
        (core_pointer, out) \<Rightarrow> out @ [Pointer_a11y_add_device core_pointer])"

definition clutter_seat_disable_pointer_a11y :: "'b ClutterSeat option \<Rightarrow> effect list" where
  "clutter_seat_disable_pointer_a11y seat =
     (case clutter_seat_get_pointer seat of
        (core_pointer, out) \<Rightarrow> out @ [Pointer_a11y_remove_device core_pointer])"

definition clutter_seat_set_pointer_a11y_settings ::
  "'b ClutterSeat option \<Rightarrow> ClutterPointerA11ySettings \<Rightarrow> 'b ClutterSeat option \<times> effect list" where
  "clutter_seat_set_pointer_a11y_settings seat settings =
     (case seat of
        None \<Rightarrow> (None, [G_critical])
      | Some priv \<Rightarrow>
          if are_pointer_a11y_settings_equal (pointer_a11y_settings priv) settings
          then (Some priv, [])
          else (Some (priv\<lparr>pointer_a11y_settings := settings\<rparr>),
                if controls (pointer_a11y_settings priv) = 0 \<and> controls settings \<noteq> 0
                then clutter_seat_enable_pointer_a11y seat
                else if controls (pointer_a11y_settings priv) \<noteq> 0 \<and> controls settings = 0
                then clutter_seat_disable_pointer_a11y seat
                else []))"

text \<open>The second argument is what the caller's struct held before the call.\<close>

definition clutter_seat_get_pointer_a11y_settings ::
  "'b ClutterSeat option \<Rightarrow> ClutterPointerA11ySettings \<Rightarrow> ClutterPointerA11ySettings \<times> effect list" where
  "clutter_seat_get_pointer_a11y_settings seat settings =
     (case seat of
        None \<Rightarrow> (settings, [G_critical])
      | Some priv \<Rightarrow> (pointer_a11y_settings priv, []))"

definition clutter_seat_set_pointer_a11y_dwell_click_type ::
  "'b ClutterSeat option \<Rightarrow> 32 word \<Rightarrow> 'b ClutterSeat option \<times> effect list" where
  "clutter_seat_set_pointer_a11y_dwell_click_type seat click_type =
     (case seat of
        None \<Rightarrow> (None, [G_critical])
      | Some priv \<Rightarrow>
          (Some (priv\<lparr>pointer_a11y_settings :=
                   (pointer_a11y_settings priv)\<lparr>dwell_click_type := click_type\<rparr>\<rparr>), []))"

subsection \<open>Unfocus inhibition\<close>

definition clutter_seat_inhibit_unfocus ::
  "'b ClutterSeat option \<Rightarrow> 'b ClutterSeat option \<times> effect list" where
  "clutter_seat_inhibit_unfocus seat =
     (case seat of
        None \<Rightarrow> (None, [G_critical])
      | Some priv \<Rightarrow>
          (let priv' = priv\<lparr>inhibit_unfocus_count := inhibit_unfocus_count priv + 1\<rparr>
           in (Some priv',
               if inhibit_unfocus_count priv' = 1
               then [G_signal_emit IS_UNFOCUS_INHIBITED_CHANGED []] else [])))"

definition clutter_seat_uninhibit_unfocus ::
  "'b ClutterSeat option \<Rightarrow> 'b ClutterSeat option \<times> effect list" where
  "clutter_seat_uninhibit_unfocus seat =
     (case seat of
        None \<Rightarrow> (None, [G_critical])
      | Some priv \<Rightarrow>
          if inhibit_unfocus_count priv = 0 then (Some priv, [G_warning])
          else
            (let priv' = priv\<lparr>inhibit_unfocus_count := inhibit_unfocus_count priv - 1\<rparr>
             in (Some priv',
                 if inhibit_unfocus_count priv' = 0
                 then [G_signal_emit IS_UNFOCUS_INHIBITED_CHANGED []] else [])))"

definition clutter_seat_is_unfocus_inhibited :: "'b ClutterSeat option \<Rightarrow> bool \<times> effect list" where
  "clutter_seat_is_unfocus_inhibited seat =
     (case seat of
        None \<Rightarrow> (False, [G_critical])
      | Some priv \<Rightarrow> (0 < inhibit_unfocus_count priv, []))"

subsection \<open>Event post-processing\<close>

definition clutter_seat_handle_event_post ::
  "'b ClutterSeat option \<Rightarrow> ClutterEvent option \<Rightarrow> fault + bool \<times> effect list" where
  "clutter_seat_handle_event_post seat event =
     (case seat of
        None \<Rightarrow> Inr (False, [G_critical])
      | Some s \<Rightarrow>
          (case event of
             None \<Rightarrow> Inr (False, [G_critical])
           | Some ev \<Rightarrow>
               (let hook = (case handle_event_post (g_class s) of
                              None \<Rightarrow> []
                            | Some f \<Rightarrow> [Class_handle_event_post ev])
                in case source_device ev of
                     None \<Rightarrow> Inl Assertion_failed
                   | Some device \<Rightarrow>
                       (case event_type ev of
                          CLUTTER_DEVICE_ADDED \<Rightarrow>
                            Inr (True, hook @ [G_signal_emit DEVICE_ADDED [device]])
                        | CLUTTER_DEVICE_REMOVED \<Rightarrow>
                            Inr (True, hook @ [G_signal_emit DEVICE_REMOVED [device],
                                               G_object_run_dispose device])
                        | CLUTTER_OTHER_EVENT t \<Rightarrow> Inr (True, hook)))))"

subsection \<open>Touch mode and touchscreens\<close>

definition clutter_seat_get_touch_mode :: "'b ClutterSeat option \<Rightarrow> bool \<times> effect list" where
  "clutter_seat_get_touch_mode seat =
     (case seat of
        None \<Rightarrow> (False, [G_critical])
      | Some s \<Rightarrow> g_object_get_boolean s PROP_TOUCH_MODE)"

text \<open>The \<^verbatim>\<open>for\<close> loop of \<^verbatim>\<open>clutter_seat_has_touchscreen\<close>, leaving at the first match.\<close>

fun has_touchscreen_loop :: "ClutterInputDevice list \<Rightarrow> bool" where
  "has_touchscreen_loop [] = False"
| "has_touchscreen_loop (device # l) =
     (if device_mode device \<noteq> CLUTTER_INPUT_MODE_LOGICAL \<and>
         device_type device = CLUTTER_TOUCHSCREEN_DEVICE
      then True else has_touchscreen_loop l)"

definition clutter_seat_has_touchscreen :: "'b ClutterSeat option \<Rightarrow> bool \<times> effect list" where
  "clutter_seat_has_touchscreen seat =
     (case seat of
        None \<Rightarrow> (False, [G_critical])
      | Some s \<Rightarrow>
          (case clutter_seat_peek_devices seat of
             (devices, out) \<Rightarrow> (has_touchscreen_loop devices, out)))"

subsection \<open>Grabs\<close>

definition clutter_seat_grab ::
  "'b ClutterSeat option \<Rightarrow> 32 word \<Rightarrow> fault + ClutterGrabState \<times> effect list" where
  "clutter_seat_grab seat time =
     (case seat of
        None \<Rightarrow> Inl Null_dereference
      | Some s \<Rightarrow>
          (case grab (g_class s) of
             Some f \<Rightarrow> Inr (f (instance_data s) time, [Class_grab time])
           | None \<Rightarrow> Inr (CLUTTER_GRAB_STATE_ALL, [])))"

definition clutter_seat_ungrab :: "'b ClutterSeat option \<Rightarrow> 32 word \<Rightarrow> fault + effect list" where
  "clutter_seat_ungrab seat time =
     (case seat of
        None \<Rightarrow> Inl Null_dereference
      | Some s \<Rightarrow>
          (case ungrab (g_class s) of
             Some f \<Rightarrow> Inr [Class_ungrab time]
           | None \<Rightarrow> Inr []))"

subsection \<open>Call sequences\<close>

text \<open>A caller making a sequence of inhibit and uninhibit calls; one trace per call.\<close>

datatype unfocus_call = Inhibit_unfocus | Uninhibit_unfocus

fun unfocus_call_on ::
  "unfocus_call \<Rightarrow> 'b ClutterSeat option \<Rightarrow> 'b ClutterSeat option \<times> effect list" where
  "unfocus_call_on Inhibit_unfocus seat = clutter_seat_inhibit_unfocus seat"
| "unfocus_call_on Uninhibit_unfocus seat = clutter_seat_uninhibit_unfocus seat"

fun unfocus_calls ::
  "'b ClutterSeat option \<Rightarrow> unfocus_call list \<Rightarrow> 'b ClutterSeat option \<times> effect list list" where
  "unfocus_calls seat [] = (seat, [])"
| "unfocus_calls seat (c # cs) =
     (case unfocus_call_on c seat of
        (seat', out) \<Rightarrow>
          (case unfocus_calls seat' cs of (seat'', outs) \<Rightarrow> (seat'', out # outs)))"

text \<open>
  The specification's reading of the same sequence: the count is the number of increments
  minus the effective decrements (a decrement at zero has no effect), and the notification
  is due exactly at a step from 0 to 1 and at a step from 1 to 0.
\<close>

fun spec_count_step :: "nat \<Rightarrow> unfocus_call \<Rightarrow> nat" where
  "spec_count_step n Inhibit_unfocus = n + 1"
| "spec_count_step n Uninhibit_unfocus = (if n = 0 then 0 else n - 1)"

fun spec_count :: "nat \<Rightarrow> unfocus_call list \<Rightarrow> nat" where
  "spec_count n [] = n"
| "spec_count n (c # cs) = spec_count (spec_count_step n c) cs"

fun spec_notifications :: "nat \<Rightarrow> unfocus_call list \<Rightarrow> effect list list" where
  "spec_notifications n [] = []"
| "spec_notifications n (c # cs) =
     (if (n = 0 \<and> spec_count_step n c = 1) \<or> (n = 1 \<and> spec_count_step n c = 0)
      then [G_signal_emit IS_UNFOCUS_INHIBITED_CHANGED []] else [])
     # spec_notifications (spec_count_step n c) cs"

text \<open>Every count the sequence passes through fits the C \<^verbatim>\<open>unsigned int\<close>.\<close>

fun counts_fit :: "nat \<Rightarrow> unfocus_call list \<Rightarrow> bool" where
  "counts_fit n [] = (n < 2 ^ 32)"
| "counts_fit n (c # cs) = (n < 2 ^ 32 \<and> counts_fit (spec_count_step n c) cs)"

fun is_signal :: "effect \<Rightarrow> bool" where
  "is_signal (G_signal_emit sig args) = True"
| "is_signal _ = False"

text \<open>A caller changing the pointer accessibility settings; the traces are concatenated.\<close>

datatype settings_call =
    Set_settings ClutterPointerA11ySettings
  | Set_dwell_click_type "32 word"

fun settings_call_on ::
  "settings_call \<Rightarrow> 'b ClutterSeat option \<Rightarrow> 'b ClutterSeat option \<times> effect list" where
  "settings_call_on (Set_settings settings) seat =
     clutter_seat_set_pointer_a11y_settings seat settings"
| "settings_call_on (Set_dwell_click_type click_type) seat =
     clutter_seat_set_pointer_a11y_dwell_click_type seat click_type"

fun settings_calls ::
  "'b ClutterSeat option \<Rightarrow> settings_call list \<Rightarrow> 'b ClutterSeat option \<times> effect list" where
  "settings_calls seat [] = (seat, [])"
| "settings_calls seat (c # cs) =
     (case settings_call_on c seat of
        (seat', out) \<Rightarrow>
          (case settings_calls seat' cs of (seat'', out') \<Rightarrow> (seat'', out @ out')))"

subsection \<open>Concrete seats\<close>

definition headless_class :: "unit ClutterSeatClass" where
  "headless_class =
     clutter_seat_class_init
       \<lparr>get_property = (\<lambda>_ _. (None, [])),
        get_pointer = (\<lambda>_. None),
        get_keyboard = (\<lambda>_. None),
        peek_devices = (\<lambda>_. []),
        get_keymap = (\<lambda>_. 0),
        get_supported_virtual_device_types = (\<lambda>_. 0),
        handle_event_post = None,
        grab = None,
        ungrab = None\<rparr>"

definition default_settings :: ClutterPointerA11ySettings where
  "default_settings = \<lparr>controls = 0, dwell_click_type = 0, other_parameters = []\<rparr>"

definition headless_seat :: "unit ClutterSeat" where
  "headless_seat =
     \<lparr>g_class = headless_class, instance_data = (),
      inhibit_unfocus_count = 0, pointer_a11y_settings = default_settings\<rparr>"

definition touchscreen :: ClutterInputDevice where
  "touchscreen =
     \<lparr>device_id = 7, device_mode = CLUTTER_INPUT_MODE_OTHER 1,
      device_type = CLUTTER_TOUCHSCREEN_DEVICE\<rparr>"

definition touch_seat :: "unit ClutterSeat" where
  "touch_seat = headless_seat\<lparr>g_class := headless_class\<lparr>peek_devices := (\<lambda>_. [touchscreen])\<rparr>\<rparr>"

definition mouse :: ClutterInputDevice where
  "mouse =
     \<lparr>device_id = 2, device_mode = CLUTTER_INPUT_MODE_LOGICAL,
      device_type = CLUTTER_OTHER_DEVICE 0\<rparr>"

definition native_class :: "unit ClutterSeatClass" where
  "native_class =
     headless_class
       \<lparr>get_pointer := (\<lambda>_. Some mouse),
        peek_devices := (\<lambda>_. [mouse, touchscreen]),
        handle_event_post := Some (\<lambda>_ _. True),
        grab := Some (\<lambda>_ _. CLUTTER_GRAB_STATE_PARTIAL 1),
        ungrab := Some (\<lambda>_ _. ())\<rparr>"

definition native_seat :: "unit ClutterSeat" where
  "native_seat = headless_seat\<lparr>g_class := native_class\<rparr>"

definition dwell_settings :: ClutterPointerA11ySettings where
  "dwell_settings = \<lparr>controls = 2, dwell_click_type = 1, other_parameters = [0, 0, 1200]\<rparr>"

section \<open>Theorems\<close>

subsection \<open>The unfocus inhibition count\<close>

lemma unat_succ_fit:
  fixes c :: "32 word"
  assumes "unat c + 1 < 2 ^ 32"
  shows "unat (c + 1) = unat c + 1"
proof -
  have "unat (c + 1) = (unat c + 1) mod 2 ^ 32"
    by (simp add: unat_word_ariths)
  with assms show ?thesis by simp
qed

lemma unat_eq_1_iff:
  fixes c :: "32 word"
  shows "(c = 1) = (unat c = 1)"
  by (metis unat_1 unsigned_word_eqI)

lemma inhibit_step:
  assumes "unat (inhibit_unfocus_count seat) = n" and "n + 1 < 2 ^ 32"
  shows "\<exists>seat'. clutter_seat_inhibit_unfocus (Some seat) =
           (Some seat', if n = 0 then [G_signal_emit IS_UNFOCUS_INHIBITED_CHANGED []] else [])
         \<and> unat (inhibit_unfocus_count seat') = n + 1"
proof -
  have u: "unat (inhibit_unfocus_count seat + 1) = n + 1"
    using assms unat_succ_fit by blast
  have "(inhibit_unfocus_count seat + 1 = 1) = (n = 0)"
    using u by (simp add: unat_eq_1_iff)
  with u show ?thesis
    by (simp add: clutter_seat_inhibit_unfocus_def Let_def)
qed

lemma uninhibit_step:
  assumes "unat (inhibit_unfocus_count seat) = n" and "n \<noteq> 0"
  shows "\<exists>seat'. clutter_seat_uninhibit_unfocus (Some seat) =
           (Some seat', if n = 1 then [G_signal_emit IS_UNFOCUS_INHIBITED_CHANGED []] else [])
         \<and> unat (inhibit_unfocus_count seat') = n - 1"
proof -
  have nz: "inhibit_unfocus_count seat \<noteq> 0"
    using assms by (auto simp: unat_eq_zero)
  then have u: "unat (inhibit_unfocus_count seat - 1) = n - 1"
    using assms(1) by (simp add: unat_minus_one)
  have "(inhibit_unfocus_count seat - 1 = 0) = (n = 1)"
    using u assms(2) by (auto simp flip: unat_eq_zero)
  with u nz show ?thesis
    by (simp add: clutter_seat_uninhibit_unfocus_def Let_def)
qed

lemma uninhibit_at_zero:
  assumes "unat (inhibit_unfocus_count seat) = 0"
  shows "clutter_seat_uninhibit_unfocus (Some seat) = (Some seat, [G_warning])"
  using assms by (simp add: clutter_seat_uninhibit_unfocus_def unat_eq_zero)

lemma call_step:
  assumes "unat (inhibit_unfocus_count seat) = n" and "spec_count_step n c < 2 ^ 32"
  shows "\<exists>seat' out. unfocus_call_on c (Some seat) = (Some seat', out)
           \<and> unat (inhibit_unfocus_count seat') = spec_count_step n c
           \<and> filter is_signal out =
               (if (n = 0 \<and> spec_count_step n c = 1) \<or> (n = 1 \<and> spec_count_step n c = 0)
                then [G_signal_emit IS_UNFOCUS_INHIBITED_CHANGED []] else [])"
proof (cases c)
  case Inhibit_unfocus
  with assms inhibit_step [of seat n] show ?thesis by auto
next
  case Uninhibit_unfocus
  show ?thesis
  proof (cases "n = 0")
    case True
    with assms Uninhibit_unfocus uninhibit_at_zero [of seat] show ?thesis by simp
  next
    case False
    with assms Uninhibit_unfocus uninhibit_step [of seat n] show ?thesis by auto
  qed
qed

lemma counts_fit_start: "counts_fit n cs \<Longrightarrow> n < 2 ^ 32"
  by (cases cs) simp_all

lemma unfocus_calls_refine:
  assumes "unat (inhibit_unfocus_count seat) = n" and "counts_fit n cs"
  shows "\<exists>seat'. fst (unfocus_calls (Some seat) cs) = Some seat'
           \<and> unat (inhibit_unfocus_count seat') = spec_count n cs
           \<and> map (filter is_signal) (snd (unfocus_calls (Some seat) cs)) = spec_notifications n cs"
  using assms
proof (induction cs arbitrary: seat n)
  case Nil
  then show ?case by simp
next
  case (Cons c cs)
  from Cons.prems have fit: "counts_fit (spec_count_step n c) cs" by simp
  then have "spec_count_step n c < 2 ^ 32" by (rule counts_fit_start)
  with Cons.prems(1) call_step [of seat n c]
  obtain seat1 out where
    s: "unfocus_call_on c (Some seat) = (Some seat1, out)" and
    u: "unat (inhibit_unfocus_count seat1) = spec_count_step n c" and
    f: "filter is_signal out =
          (if (n = 0 \<and> spec_count_step n c = 1) \<or> (n = 1 \<and> spec_count_step n c = 0)
           then [G_signal_emit IS_UNFOCUS_INHIBITED_CHANGED []] else [])"
    by blast
  from Cons.IH [OF u fit] obtain seat2 where
    r: "fst (unfocus_calls (Some seat1) cs) = Some seat2"
       "unat (inhibit_unfocus_count seat2) = spec_count (spec_count_step n c) cs"
       "map (filter is_signal) (snd (unfocus_calls (Some seat1) cs)) =
          spec_notifications (spec_count_step n c) cs"
    by blast
  show ?case
    using s f r by (simp add: split_beta)
qed

lemma is_inhibited_unat:
  "fst (clutter_seat_is_unfocus_inhibited (Some seat)) = (0 < unat (inhibit_unfocus_count seat))"
  by (simp add: clutter_seat_is_unfocus_inhibited_def word_less_nat_alt)

text \<open>
  C1, as the code has it: for every sequence of inhibit_unfocus and uninhibit_unfocus calls
  on a seat whose count starts at 0, as long as every count the sequence passes through fits
  the 32-bit counter, is_unfocus_inhibited returns true iff the count (increments minus
  effective decrements) is greater than 0, and the is-unfocus-inhibited-changed signal is
  emitted exactly once by each call that takes the count from 0 to 1 or from 1 to 0, and by
  no other call.
\<close>

theorem unfocus_refcount_within_range:
  assumes "inhibit_unfocus_count seat = 0" and "counts_fit 0 calls"
  shows "fst (clutter_seat_is_unfocus_inhibited (fst (unfocus_calls (Some seat) calls)))
           = (0 < spec_count 0 calls)
         \<and> map (filter is_signal) (snd (unfocus_calls (Some seat) calls))
           = spec_notifications 0 calls"
proof -
  from assms(1) have "unat (inhibit_unfocus_count seat) = 0" by simp
  from unfocus_calls_refine [OF this assms(2)] obtain seat' where
    "fst (unfocus_calls (Some seat) calls) = Some seat'"
    "unat (inhibit_unfocus_count seat') = spec_count 0 calls"
    "map (filter is_signal) (snd (unfocus_calls (Some seat) calls)) = spec_notifications 0 calls"
    by blast
  then show ?thesis by (simp add: is_inhibited_unat)
qed

theorem unfocus_refcount_witness:
  "inhibit_unfocus_count headless_seat = 0
   \<and> counts_fit 0 [Uninhibit_unfocus, Inhibit_unfocus, Inhibit_unfocus, Uninhibit_unfocus, Uninhibit_unfocus]
   \<and> fst (clutter_seat_is_unfocus_inhibited (fst (unfocus_calls (Some headless_seat)
        [Uninhibit_unfocus, Inhibit_unfocus, Inhibit_unfocus, Uninhibit_unfocus, Uninhibit_unfocus]))) = False
   \<and> map (filter is_signal) (snd (unfocus_calls (Some headless_seat)
        [Uninhibit_unfocus, Inhibit_unfocus, Inhibit_unfocus, Uninhibit_unfocus, Uninhibit_unfocus]))
      = [[], [G_signal_emit IS_UNFOCUS_INHIBITED_CHANGED []], [], [],
         [G_signal_emit IS_UNFOCUS_INHIBITED_CHANGED []]]"
proof -
  have h1: "inhibit_unfocus_count headless_seat = 0"
    by (simp add: headless_seat_def)
  have h2: "counts_fit 0 [Uninhibit_unfocus, Inhibit_unfocus, Inhibit_unfocus, Uninhibit_unfocus, Uninhibit_unfocus]"
    by simp
  show ?thesis
    using h1 h2 unfocus_refcount_within_range [OF h1 h2] by simp
qed

lemma inhibit_many:
  "fst (unfocus_calls (Some seat) (replicate k Inhibit_unfocus)) =
     Some (seat\<lparr>inhibit_unfocus_count := inhibit_unfocus_count seat + of_nat k\<rparr>)"
proof (induction k arbitrary: seat)
  case 0
  then show ?case by simp
next
  case (Suc k)
  then show ?case
    by (simp add: clutter_seat_inhibit_unfocus_def Let_def split_beta add.assoc add.commute)
qed

lemma spec_count_inhibit_many: "spec_count n (replicate k Inhibit_unfocus) = n + k"
  by (induction k arbitrary: n) simp_all

text \<open>
  C1 as stated fails once the counter wraps: after \<open>2 ^ 32\<close> inhibit_unfocus calls the
  \<^verbatim>\<open>unsigned int\<close> is 0 again and is_unfocus_inhibited returns false, although
  \<open>2 ^ 32\<close> inhibits are outstanding.
\<close>

theorem unfocus_count_wraps:
  "fst (clutter_seat_is_unfocus_inhibited
          (fst (unfocus_calls (Some headless_seat) (replicate (2 ^ 32) Inhibit_unfocus))))
     = False
   \<and> spec_count 0 (replicate (2 ^ 32) Inhibit_unfocus) = 2 ^ 32"
  by (simp add: inhibit_many spec_count_inhibit_many clutter_seat_is_unfocus_inhibited_def
      headless_seat_def)

text \<open>
  C7: uninhibit_unfocus on a seat whose count is 0 logs a warning, emits no signal and
  returns normally with the seat (the count included) unchanged.
\<close>

theorem uninhibit_unfocus_at_zero:
  "inhibit_unfocus_count seat = 0 \<Longrightarrow>
     clutter_seat_uninhibit_unfocus (Some seat) = (Some seat, [G_warning])"
  by (simp add: clutter_seat_uninhibit_unfocus_def)

theorem uninhibit_unfocus_at_zero_witness:
  "inhibit_unfocus_count headless_seat = 0
   \<and> clutter_seat_uninhibit_unfocus (Some headless_seat) = (Some headless_seat, [G_warning])"
proof -
  have h: "inhibit_unfocus_count headless_seat = 0"
    by (simp add: headless_seat_def)
  from h uninhibit_unfocus_at_zero [OF h] show ?thesis by simp
qed

subsection \<open>Pointer accessibility settings\<close>

lemmas set_settings_defs =
  clutter_seat_set_pointer_a11y_settings_def are_pointer_a11y_settings_equal_def
  clutter_seat_enable_pointer_a11y_def clutter_seat_disable_pointer_a11y_def
  clutter_seat_get_pointer_def

lemma set_settings_changed:
  assumes "settings \<noteq> pointer_a11y_settings seat"
  shows "clutter_seat_set_pointer_a11y_settings (Some seat) settings =
     (Some (seat\<lparr>pointer_a11y_settings := settings\<rparr>),
      if controls (pointer_a11y_settings seat) = 0 \<and> controls settings \<noteq> 0
      then [Pointer_a11y_add_device (get_pointer (g_class seat) (instance_data seat))]
      else if controls (pointer_a11y_settings seat) \<noteq> 0 \<and> controls settings = 0
      then [Pointer_a11y_remove_device (get_pointer (g_class seat) (instance_data seat))]
      else [])"
  using assms by (auto simp: set_settings_defs)

lemma dwell_calls_only:
  "\<exists>t. settings_calls (Some seat) (map Set_dwell_click_type ts @ cs) =
     settings_calls (Some (seat\<lparr>pointer_a11y_settings :=
        (pointer_a11y_settings seat)\<lparr>dwell_click_type := t\<rparr>\<rparr>)) cs"
proof (induction ts arbitrary: seat)
  case Nil
  have "seat\<lparr>pointer_a11y_settings :=
        (pointer_a11y_settings seat)\<lparr>dwell_click_type := dwell_click_type (pointer_a11y_settings seat)\<rparr>\<rparr> = seat"
    by simp
  then show ?case by (metis append_Nil list.simps(8))
next
  case (Cons t ts)
  let ?seat1 = "seat\<lparr>pointer_a11y_settings := (pointer_a11y_settings seat)\<lparr>dwell_click_type := t\<rparr>\<rparr>"
  from Cons.IH [of ?seat1] obtain t' where
    "settings_calls (Some ?seat1) (map Set_dwell_click_type ts @ cs) =
     settings_calls (Some (?seat1\<lparr>pointer_a11y_settings :=
        (pointer_a11y_settings ?seat1)\<lparr>dwell_click_type := t'\<rparr>\<rparr>)) cs"
    by blast
  then have "settings_calls (Some seat) (map Set_dwell_click_type (t # ts) @ cs) =
     settings_calls (Some (seat\<lparr>pointer_a11y_settings :=
        (pointer_a11y_settings seat)\<lparr>dwell_click_type := t'\<rparr>\<rparr>)) cs"
    by (simp add: clutter_seat_set_pointer_a11y_dwell_click_type_def)
  then show ?case by blast
qed

text \<open>
  C2: when the new settings differ from the stored ones, set_pointer_a11y_settings calls the
  add-device hook if the stored controls are 0 and the new ones are not, the remove-device
  hook if the stored controls are not 0 and the new ones are, and no hook otherwise; the
  stored settings become the new value in full, which get_pointer_a11y_settings then
  returns. From controls 0, setting nonzero controls and later controls 0 calls the
  add-device hook once and then the remove-device hook once, whatever dwell click type
  updates come in between.
\<close>

theorem set_pointer_a11y_settings_transitions:
  "(settings \<noteq> pointer_a11y_settings seat \<longrightarrow>
      clutter_seat_set_pointer_a11y_settings (Some seat) settings =
        (Some (seat\<lparr>pointer_a11y_settings := settings\<rparr>),
         if controls (pointer_a11y_settings seat) = 0 \<and> controls settings \<noteq> 0
         then [Pointer_a11y_add_device (get_pointer (g_class seat) (instance_data seat))]
         else if controls (pointer_a11y_settings seat) \<noteq> 0 \<and> controls settings = 0
         then [Pointer_a11y_remove_device (get_pointer (g_class seat) (instance_data seat))]
         else [])
      \<and> clutter_seat_get_pointer_a11y_settings
           (fst (clutter_seat_set_pointer_a11y_settings (Some seat) settings)) old = (settings, []))
   \<and> (controls (pointer_a11y_settings seat) = 0 \<and> controls on \<noteq> 0 \<and> controls off = 0 \<longrightarrow>
        snd (settings_calls (Some seat)
               (Set_settings on # map Set_dwell_click_type ts @ [Set_settings off])) =
          [Pointer_a11y_add_device (get_pointer (g_class seat) (instance_data seat)),
           Pointer_a11y_remove_device (get_pointer (g_class seat) (instance_data seat))])"
proof (intro conjI impI)
  assume d: "settings \<noteq> pointer_a11y_settings seat"
  show "clutter_seat_set_pointer_a11y_settings (Some seat) settings =
        (Some (seat\<lparr>pointer_a11y_settings := settings\<rparr>),
         if controls (pointer_a11y_settings seat) = 0 \<and> controls settings \<noteq> 0
         then [Pointer_a11y_add_device (get_pointer (g_class seat) (instance_data seat))]
         else if controls (pointer_a11y_settings seat) \<noteq> 0 \<and> controls settings = 0
         then [Pointer_a11y_remove_device (get_pointer (g_class seat) (instance_data seat))]
         else [])"
    using d by (rule set_settings_changed)
  then show "clutter_seat_get_pointer_a11y_settings
           (fst (clutter_seat_set_pointer_a11y_settings (Some seat) settings)) old = (settings, [])"
    by (simp add: clutter_seat_get_pointer_a11y_settings_def)
next
  assume c: "controls (pointer_a11y_settings seat) = 0 \<and> controls on \<noteq> 0 \<and> controls off = 0"
  then have 1: "on \<noteq> pointer_a11y_settings seat" by auto
  let ?mid = "seat\<lparr>pointer_a11y_settings := on\<rparr>"
  from dwell_calls_only [of ?mid ts "[Set_settings off]"] obtain t where
    d: "settings_calls (Some ?mid) (map Set_dwell_click_type ts @ [Set_settings off]) =
        settings_calls (Some (?mid\<lparr>pointer_a11y_settings :=
          (pointer_a11y_settings ?mid)\<lparr>dwell_click_type := t\<rparr>\<rparr>)) [Set_settings off]"
    by blast
  let ?last = "?mid\<lparr>pointer_a11y_settings := (pointer_a11y_settings ?mid)\<lparr>dwell_click_type := t\<rparr>\<rparr>"
  have 2: "off \<noteq> pointer_a11y_settings ?last"
    using c by auto
  have 3: "snd (settings_calls (Some ?last) [Set_settings off]) =
      [Pointer_a11y_remove_device (get_pointer (g_class seat) (instance_data seat))]"
    using c set_settings_changed [OF 2] by simp
  have "snd (settings_calls (Some seat)
               (Set_settings on # map Set_dwell_click_type ts @ [Set_settings off])) =
        [Pointer_a11y_add_device (get_pointer (g_class seat) (instance_data seat))]
        @ snd (settings_calls (Some ?mid) (map Set_dwell_click_type ts @ [Set_settings off]))"
    using c by (simp add: set_settings_changed [OF 1] split_beta)
  also have "\<dots> = [Pointer_a11y_add_device (get_pointer (g_class seat) (instance_data seat)),
           Pointer_a11y_remove_device (get_pointer (g_class seat) (instance_data seat))]"
    by (simp only: d 3 append.simps)
  finally show "snd (settings_calls (Some seat)
               (Set_settings on # map Set_dwell_click_type ts @ [Set_settings off])) =
          [Pointer_a11y_add_device (get_pointer (g_class seat) (instance_data seat)),
           Pointer_a11y_remove_device (get_pointer (g_class seat) (instance_data seat))]" .
qed

theorem set_pointer_a11y_settings_transitions_witness:
  "dwell_settings \<noteq> pointer_a11y_settings native_seat
   \<and> clutter_seat_set_pointer_a11y_settings (Some native_seat) dwell_settings =
       (Some (native_seat\<lparr>pointer_a11y_settings := dwell_settings\<rparr>),
        [Pointer_a11y_add_device (Some mouse)])
   \<and> clutter_seat_get_pointer_a11y_settings
        (fst (clutter_seat_set_pointer_a11y_settings (Some native_seat) dwell_settings))
        default_settings = (dwell_settings, [])
   \<and> controls (pointer_a11y_settings native_seat) = 0 \<and> controls dwell_settings \<noteq> 0
   \<and> controls default_settings = 0
   \<and> snd (settings_calls (Some native_seat)
        (Set_settings dwell_settings # map Set_dwell_click_type [3, 0] @ [Set_settings default_settings]))
      = [Pointer_a11y_add_device (Some mouse), Pointer_a11y_remove_device (Some mouse)]"
proof -
  have h1: "dwell_settings \<noteq> pointer_a11y_settings native_seat"
    by (simp add: dwell_settings_def native_seat_def headless_seat_def default_settings_def)
  have h2: "controls (pointer_a11y_settings native_seat) = 0"
    by (simp add: native_seat_def headless_seat_def default_settings_def)
  have h3: "controls dwell_settings \<noteq> 0"
    by (simp add: dwell_settings_def)
  have h4: "controls default_settings = 0"
    by (simp add: default_settings_def)
  have p: "get_pointer (g_class native_seat) (instance_data native_seat) = Some mouse"
    by (simp add: native_seat_def native_class_def)
  show ?thesis
    using h1 h2 h3 h4 p
      set_pointer_a11y_settings_transitions
        [of dwell_settings native_seat default_settings dwell_settings default_settings "[3, 0]"]
    by (simp add: clutter_seat_get_pointer_a11y_settings_def del: settings_calls.simps)
qed

text \<open>
  C5: set_pointer_a11y_settings with the value already stored does nothing: no hook is
  called and the seat is unchanged. Hence the second of two consecutive calls with the same
  value does nothing, whatever the first did.
\<close>

theorem set_pointer_a11y_settings_idempotent:
  "clutter_seat_set_pointer_a11y_settings (Some seat) (pointer_a11y_settings seat) = (Some seat, [])
   \<and> (case clutter_seat_set_pointer_a11y_settings (Some seat) settings of
        (seat1, out1) \<Rightarrow> clutter_seat_set_pointer_a11y_settings seat1 settings = (seat1, []))"
  by (simp add: set_settings_defs)

text \<open>
  C6: for every seat state and every click type, set_pointer_a11y_dwell_click_type changes
  only the dwell_click_type field of the stored settings; every other settings field, the
  inhibit count and the rest of the seat stay as they were, and no call leaves the
  function: neither the enable nor the disable hook, also when controls is 0.
\<close>

theorem dwell_click_type_frame:
  "clutter_seat_set_pointer_a11y_dwell_click_type (Some seat) click_type =
     (Some (seat\<lparr>pointer_a11y_settings :=
              (pointer_a11y_settings seat)\<lparr>dwell_click_type := click_type\<rparr>\<rparr>), [])"
  by (simp add: clutter_seat_set_pointer_a11y_dwell_click_type_def)

subsection \<open>Grabs\<close>

text \<open>
  C8: on a seat whose class has no grab function, clutter_seat_grab returns
  CLUTTER_GRAB_STATE_ALL for every time and calls nothing; on a seat whose class has no
  ungrab function, clutter_seat_ungrab calls nothing.
\<close>

theorem grab_ungrab_defaults:
  "(grab (g_class seat) = None \<longrightarrow>
      clutter_seat_grab (Some seat) time = Inr (CLUTTER_GRAB_STATE_ALL, []))
   \<and> (ungrab (g_class seat) = None \<longrightarrow> clutter_seat_ungrab (Some seat) time = Inr [])"
  by (simp add: clutter_seat_grab_def clutter_seat_ungrab_def)

theorem grab_ungrab_defaults_witness:
  "grab (g_class headless_seat) = None
   \<and> clutter_seat_grab (Some headless_seat) 1000 = Inr (CLUTTER_GRAB_STATE_ALL, [])
   \<and> ungrab (g_class headless_seat) = None
   \<and> clutter_seat_ungrab (Some headless_seat) 1000 = Inr []"
proof -
  have h: "grab (g_class headless_seat) = None \<and> ungrab (g_class headless_seat) = None"
    by (simp add: headless_seat_def headless_class_def clutter_seat_class_init_def)
  with grab_ungrab_defaults [of headless_seat 1000] show ?thesis by simp
qed

subsection \<open>Event post-processing\<close>

text \<open>
  C3: for every seat and every delivered event (an event that carries its source device),
  handle_event_post first calls the class's post-processing function when the class has
  one; then a DEVICE_ADDED event emits device-added with the event's source device, a
  DEVICE_REMOVED event emits device-removed with the device and then disposes the device,
  and any other event type does nothing more; the function returns true.
\<close>

theorem handle_event_post_dispatch:
  assumes "source_device ev = Some device"
  shows "clutter_seat_handle_event_post (Some seat) (Some ev) =
     Inr (True,
          (case handle_event_post (g_class seat) of
             None \<Rightarrow> []
           | Some f \<Rightarrow> [Class_handle_event_post ev])
          @ (case event_type ev of
               CLUTTER_DEVICE_ADDED \<Rightarrow> [G_signal_emit DEVICE_ADDED [device]]
             | CLUTTER_DEVICE_REMOVED \<Rightarrow>
                 [G_signal_emit DEVICE_REMOVED [device], G_object_run_dispose device]
             | CLUTTER_OTHER_EVENT t \<Rightarrow> []))"
  using assms
  by (cases "event_type ev") (simp_all add: clutter_seat_handle_event_post_def)

theorem handle_event_post_dispatch_witness:
  "source_device \<lparr>event_type = CLUTTER_DEVICE_REMOVED, source_device = Some touchscreen\<rparr>
     = Some touchscreen
   \<and> clutter_seat_handle_event_post (Some native_seat)
        (Some \<lparr>event_type = CLUTTER_DEVICE_REMOVED, source_device = Some touchscreen\<rparr>) =
      Inr (True,
           [Class_handle_event_post
              \<lparr>event_type = CLUTTER_DEVICE_REMOVED, source_device = Some touchscreen\<rparr>,
            G_signal_emit DEVICE_REMOVED [touchscreen],
            G_object_run_dispose touchscreen])"
proof -
  have h: "source_device \<lparr>event_type = CLUTTER_DEVICE_REMOVED, source_device = Some touchscreen\<rparr>
     = Some touchscreen"
    by simp
  have k: "handle_event_post (g_class native_seat) = Some (\<lambda>_ _. True)"
    by (simp add: native_seat_def native_class_def)
  show ?thesis
    using h k handle_event_post_dispatch [OF h, of native_seat] by simp
qed

text \<open>
  Outside that domain the function does not return true: a null seat or a null event fails
  the guard, and an event without a source device fails the assertion.
\<close>

lemma handle_event_post_outside:
  "clutter_seat_handle_event_post None event = Inr (False, [G_critical])"
  "clutter_seat_handle_event_post (Some seat) None = Inr (False, [G_critical])"
  "source_device ev = None \<Longrightarrow>
     clutter_seat_handle_event_post (Some seat) (Some ev) = Inl Assertion_failed"
  by (simp_all add: clutter_seat_handle_event_post_def)

subsection \<open>Null seat handles\<close>

text \<open>The operations that start with the seat guard return their neutral value on a null seat.\<close>

lemma null_seat_guarded:
  "clutter_seat_get_pointer None = (None, [G_critical])"
  "clutter_seat_get_keyboard None = (None, [G_critical])"
  "clutter_seat_peek_devices None = ([], [G_critical])"
  "clutter_seat_list_devices None = ([], [G_critical])"
  "clutter_seat_get_supported_virtual_device_types None =
     (CLUTTER_VIRTUAL_DEVICE_TYPE_NONE, [G_critical])"
  "clutter_seat_set_pointer_a11y_settings None settings = (None, [G_critical])"
  "clutter_seat_get_pointer_a11y_settings None settings = (settings, [G_critical])"
  "clutter_seat_set_pointer_a11y_dwell_click_type None click_type = (None, [G_critical])"
  "clutter_seat_inhibit_unfocus None = (None, [G_critical])"
  "clutter_seat_uninhibit_unfocus None = (None, [G_critical])"
  "clutter_seat_is_unfocus_inhibited None = (False, [G_critical])"
  "clutter_seat_get_touch_mode None = (False, [G_critical])"
  "clutter_seat_has_touchscreen None = (False, [G_critical])"
  by (simp_all add: clutter_seat_get_pointer_def clutter_seat_get_keyboard_def
      clutter_seat_peek_devices_def clutter_seat_list_devices_def
      clutter_seat_get_supported_virtual_device_types_def
      clutter_seat_set_pointer_a11y_settings_def clutter_seat_get_pointer_a11y_settings_def
      clutter_seat_set_pointer_a11y_dwell_click_type_def clutter_seat_inhibit_unfocus_def
      clutter_seat_uninhibit_unfocus_def clutter_seat_is_unfocus_inhibited_def
      clutter_seat_get_touch_mode_def clutter_seat_has_touchscreen_def)

text \<open>
  C4: the claim that every public operation returns a neutral value on a null seat without
  dereferencing it fails for bell_notify, get_keymap and grab: they have no guard and read
  the class through the null seat.
\<close>

theorem null_seat_unguarded:
  "clutter_seat_bell_notify None = Inl Null_dereference
   \<and> clutter_seat_get_keymap None = Inl Null_dereference
   \<and> clutter_seat_grab None 0 = Inl Null_dereference"
  by (simp add: clutter_seat_bell_notify_def clutter_seat_get_keymap_def clutter_seat_grab_def)

subsection \<open>Touch mode and touchscreens\<close>

lemma has_touchscreen_loop_iff:
  "has_touchscreen_loop devices =
     (\<exists>device \<in> set devices. device_mode device \<noteq> CLUTTER_INPUT_MODE_LOGICAL
        \<and> device_type device = CLUTTER_TOUCHSCREEN_DEVICE)"
  by (induction devices) auto

text \<open>
  C9, as the code has it: clutter_seat_has_touchscreen returns true iff the seat's device
  list contains a device whose mode is not logical and whose type is touchscreen, and false
  for an empty list; the touch-mode property as this file implements it reads FALSE, so
  clutter_seat_get_touch_mode returns false on every seat whose class keeps this file's
  property getter, whatever its devices.
\<close>

theorem has_touchscreen_iff:
  "fst (clutter_seat_has_touchscreen (Some seat)) =
     (\<exists>device \<in> set (peek_devices (g_class seat) (instance_data seat)).
        device_mode device \<noteq> CLUTTER_INPUT_MODE_LOGICAL
        \<and> device_type device = CLUTTER_TOUCHSCREEN_DEVICE)
   \<and> (peek_devices (g_class seat) (instance_data seat) = [] \<longrightarrow>
        fst (clutter_seat_has_touchscreen (Some seat)) = False)
   \<and> (get_property (g_class seat) = clutter_seat_get_property \<longrightarrow>
        clutter_seat_get_touch_mode (Some seat) = (False, []))"
  by (simp add: clutter_seat_has_touchscreen_def clutter_seat_peek_devices_def
      has_touchscreen_loop_iff clutter_seat_get_touch_mode_def g_object_get_boolean_def
      clutter_seat_get_property_def)

theorem has_touchscreen_iff_witness:
  "peek_devices (g_class headless_seat) (instance_data headless_seat) = []
   \<and> fst (clutter_seat_has_touchscreen (Some headless_seat)) = False
   \<and> get_property (g_class headless_seat) = clutter_seat_get_property
   \<and> clutter_seat_get_touch_mode (Some headless_seat) = (False, [])
   \<and> peek_devices (g_class native_seat) (instance_data native_seat) = [mouse, touchscreen]
   \<and> fst (clutter_seat_has_touchscreen (Some native_seat)) = True"
proof -
  have h1: "peek_devices (g_class headless_seat) (instance_data headless_seat) = []"
    by (simp add: headless_seat_def headless_class_def clutter_seat_class_init_def)
  have h2: "get_property (g_class headless_seat) = clutter_seat_get_property"
    by (simp add: headless_seat_def headless_class_def clutter_seat_class_init_def)
  have h3: "peek_devices (g_class native_seat) (instance_data native_seat) = [mouse, touchscreen]"
    by (simp add: native_seat_def native_class_def)
  have h4: "device_mode touchscreen \<noteq> CLUTTER_INPUT_MODE_LOGICAL
      \<and> device_type touchscreen = CLUTTER_TOUCHSCREEN_DEVICE"
    by (simp add: touchscreen_def)
  show ?thesis
    using h1 h2 h3 h4 has_touchscreen_iff [of headless_seat] has_touchscreen_iff [of native_seat]
    by simp
qed

text \<open>
  C9 as stated fails: a seat whose device list holds a physical touchscreen still reads
  touch mode false.
\<close>

theorem touch_mode_ignores_devices:
  "fst (clutter_seat_get_touch_mode (Some touch_seat)) = False
   \<and> peek_devices (g_class touch_seat) (instance_data touch_seat) = [touchscreen]
   \<and> device_mode touchscreen \<noteq> CLUTTER_INPUT_MODE_LOGICAL
   \<and> device_type touchscreen = CLUTTER_TOUCHSCREEN_DEVICE"
  by (simp add: clutter_seat_get_touch_mode_def g_object_get_boolean_def touch_seat_def
      headless_seat_def headless_class_def clutter_seat_class_init_def
      clutter_seat_get_property_def touchscreen_def)

subsection \<open>Accessibility hooks and an absent pointer\<close>

text \<open>
  C10: when get_pointer returns no device, an enable transition of set_pointer_a11y_settings
  (controls 0 to nonzero) still calls the add-device hook, and a disable transition (nonzero
  to 0) still calls the remove-device hook, each with the null pointer; ensure_a11y_state
  calls nothing in that case, and with a pointer present it calls add-device with that
  pointer exactly when pointer accessibility is enabled for it.
\<close>

theorem a11y_hooks_without_pointer:
  "(get_pointer (g_class seat) (instance_data seat) = None \<longrightarrow>
      (controls (pointer_a11y_settings seat) = 0 \<and> controls settings \<noteq> 0 \<longrightarrow>
         snd (clutter_seat_set_pointer_a11y_settings (Some seat) settings) =
           [Pointer_a11y_add_device None])
      \<and> (controls (pointer_a11y_settings seat) \<noteq> 0 \<and> controls settings = 0 \<longrightarrow>
           snd (clutter_seat_set_pointer_a11y_settings (Some seat) settings) =
             [Pointer_a11y_remove_device None])
      \<and> clutter_seat_ensure_a11y_state is_enabled (Some seat) = [])
   \<and> (get_pointer (g_class seat) (instance_data seat) = Some core_pointer \<longrightarrow>
        clutter_seat_ensure_a11y_state is_enabled (Some seat) =
          (if is_enabled core_pointer then [Pointer_a11y_add_device (Some core_pointer)] else []))"
  by (auto simp: clutter_seat_set_pointer_a11y_settings_def are_pointer_a11y_settings_equal_def
      clutter_seat_enable_pointer_a11y_def clutter_seat_disable_pointer_a11y_def
      clutter_seat_get_pointer_def clutter_seat_ensure_a11y_state_def)

theorem a11y_hooks_without_pointer_witness:
  "get_pointer (g_class headless_seat) (instance_data headless_seat) = None
   \<and> controls (pointer_a11y_settings headless_seat) = 0 \<and> controls dwell_settings \<noteq> 0
   \<and> snd (clutter_seat_set_pointer_a11y_settings (Some headless_seat) dwell_settings) =
        [Pointer_a11y_add_device None]
   \<and> controls (pointer_a11y_settings (headless_seat\<lparr>pointer_a11y_settings := dwell_settings\<rparr>)) \<noteq> 0
   \<and> controls default_settings = 0
   \<and> snd (clutter_seat_set_pointer_a11y_settings
        (Some (headless_seat\<lparr>pointer_a11y_settings := dwell_settings\<rparr>)) default_settings) =
        [Pointer_a11y_remove_device None]
   \<and> clutter_seat_ensure_a11y_state (\<lambda>_. True) (Some headless_seat) = []
   \<and> get_pointer (g_class native_seat) (instance_data native_seat) = Some mouse
   \<and> clutter_seat_ensure_a11y_state (\<lambda>_. True) (Some native_seat) =
        [Pointer_a11y_add_device (Some mouse)]"
proof -
  have h1: "get_pointer (g_class headless_seat) (instance_data headless_seat) = None"
    by (simp add: headless_seat_def headless_class_def clutter_seat_class_init_def)
  have h2: "controls (pointer_a11y_settings headless_seat) = 0"
    by (simp add: headless_seat_def default_settings_def)
  have h3: "controls dwell_settings \<noteq> 0"
    by (simp add: dwell_settings_def)
  have h4: "controls default_settings = 0"
    by (simp add: default_settings_def)
  have h5: "get_pointer (g_class native_seat) (instance_data native_seat) = Some mouse"
    by (simp add: native_seat_def native_class_def)
  have h6: "g_class (headless_seat\<lparr>pointer_a11y_settings := dwell_settings\<rparr>) = g_class headless_seat"
    by simp
  show ?thesis
    using h1 h2 h3 h4 h5
      a11y_hooks_without_pointer [of headless_seat dwell_settings "\<lambda>_. True" mouse]
      a11y_hooks_without_pointer
        [of "headless_seat\<lparr>pointer_a11y_settings := dwell_settings\<rparr>" default_settings "\<lambda>_. True" mouse]
      a11y_hooks_without_pointer [of native_seat dwell_settings "\<lambda>_. True" mouse]
    by simp
qed

end
